theory Spec2Isabelle
  imports Main "HOL-Library.Word" "HOL-Library.Sublist"
begin

section \<open>JavaScript strings and the built-ins the node uses\<close>

text \<open>
  A JavaScript string is a sequence of UTF-16 code units and \<open>s.length\<close> counts code
  units, so a string is a list of 16-bit words.  A literal of the source is written with
  \<open>lit\<close>, which maps each ASCII character to its code unit.
\<close>

type_synonym jsstring = "16 word list"

definition lit :: "string \<Rightarrow> jsstring" where
  "lit s = map of_char s"

text \<open>
  \<open>String.prototype.trim\<close> removes leading and trailing WhiteSpace and LineTerminator
  code points (ECMAScript, sections 12.2 and 12.3): TAB, LF, VT, FF, CR, SPACE, NBSP,
  U+1680, U+2000 to U+200A, U+2028, U+2029, U+202F, U+205F, U+3000 and U+FEFF.
\<close>

definition isWhiteSpace :: "16 word \<Rightarrow> bool" where
  "isWhiteSpace c \<longleftrightarrow>
     c = 0x0009 \<or> c = 0x000A \<or> c = 0x000B \<or> c = 0x000C \<or> c = 0x000D \<or>
     c = 0x0020 \<or> c = 0x00A0 \<or> c = 0x1680 \<or> (0x2000 \<le> c \<and> c \<le> 0x200A) \<or>
     c = 0x2028 \<or> c = 0x2029 \<or> c = 0x202F \<or> c = 0x205F \<or> c = 0x3000 \<or> c = 0xFEFF"

definition trim :: "jsstring \<Rightarrow> jsstring" where
  "trim s = rev (dropWhile isWhiteSpace (rev (dropWhile isWhiteSpace s)))"

text \<open>
  \<open>s.split\<close> with the line feed as separator: the pieces of \<open>s\<close> between occurrences of LF, in order; the
  empty string gives one empty piece.  \<open>cur\<close> is the piece being read.
\<close>

fun split_from :: "jsstring \<Rightarrow> jsstring \<Rightarrow> jsstring list" where
  "split_from cur [] = [cur]"
| "split_from cur (c # cs) =
     (if c = 0x000A then cur # split_from [] cs else split_from (cur @ [c]) cs)"

definition split_newline :: "jsstring \<Rightarrow> jsstring list" where
  "split_newline s = split_from [] s"

text \<open>
  A number in a template literal: a non-negative integer is printed in decimal
  (\<open>prompt.length\<close> and HTTP status codes are such numbers).
\<close>

definition digit :: "nat \<Rightarrow> 16 word" where
  "digit d = of_nat (48 + d)"

fun decimal :: "nat \<Rightarrow> jsstring" where
  "decimal n = (if n < 10 then [digit n] else decimal (n div 10) @ [digit (n mod 10)])"

declare decimal.simps [simp del]

text \<open>
  \<open>baseUrl.replace(/\/$/, '')\<close>: the regular expression has no flags, so \<open>$\<close> is the
  end of the input and only the leftmost match is replaced.  The scan tries each position
  from the left; the pattern matches at a position when the code unit there is \<open>/\<close>
  (U+002F) and nothing follows it.
\<close>

fun replace_trailing_slash :: "jsstring \<Rightarrow> jsstring" where
  "replace_trailing_slash [] = []"
| "replace_trailing_slash (c # cs) =
     (if c = 0x002F \<and> cs = [] then [] else c # replace_trailing_slash cs)"

section \<open>Payload construction (lines 187 to 238 of \<open>Antijection.node.ts\<close>)\<close>

text \<open>
  The parameters of one item, as \<open>getNodeParameter\<close> returns them (the host's
  resolution of a parameter is taken as done: the list of items holds the resolved
  values).  Optional members of \<open>ruleSettings\<close> are options; the payload's own
  \<open>enabled\<close> member is written \<open>rs_enabled\<close> to keep the two apart.
\<close>

record rule_settings_param =
  enabled :: "bool option"
  disabledCategories :: "jsstring list option"
  blockedKeywords :: "jsstring option"

record node_parameters =
  prompt_param :: jsstring
  detectionMethod :: jsstring
  ruleSettings :: "rule_settings_param option"

record rule_settings_payload =
  rs_enabled :: bool
  disabled_categories :: "jsstring list"
  blocked_keywords :: "jsstring list"

record payload =
  prompt :: jsstring
  detection_method :: jsstring
  rule_settings :: "rule_settings_payload option"

text \<open>
  What the \<open>catch\<close> clause reads from a thrown value: its message, the optional HTTP
  response with status and body (or data), and an optional \<open>statusCode\<close>.  A
  \<open>NodeOperationError\<close> has a message and the item index and neither of the HTTP members;
  \<open>NodeOperationError msg i\<close> is the one whose message is \<open>msg\<close>.  The constructor of
  the class does not always keep the message it is given: it is \<open>new_NodeOperationError\<close>
  below, and \<open>new_NodeOperationError_validation\<close> shows that it keeps the two messages
  of lines 199 and 207.
\<close>

record error_body =
  detail :: "jsstring option"
  body_error :: "jsstring option"

record error_response =
  status :: "nat option"
  body :: "error_body option"
  data :: "error_body option"

record js_error =
  message :: jsstring
  response :: "error_response option"
  statusCode :: "nat option"
  itemIndex :: "nat option"

definition NodeOperationError :: "jsstring \<Rightarrow> nat \<Rightarrow> js_error" where
  "NodeOperationError msg i =
     \<lparr>message = msg, response = None, statusCode = None, itemIndex = Some i\<rparr>"

text \<open>
  \<open>String.prototype.toUpperCase\<close>.  On a string of ASCII code units it maps \<open>a\<close> to
  \<open>z\<close> to \<open>A\<close> to \<open>Z\<close> and keeps every other code unit.  What it does to a string
  with a code unit beyond ASCII depends on the Unicode case tables of the JavaScript
  engine; that part is the parameter \<open>unicodeUpper\<close>.
\<close>

definition ascii_upper :: "16 word \<Rightarrow> 16 word" where
  "ascii_upper c = (if 0x0061 \<le> c \<and> c \<le> 0x007A then c - 0x0020 else c)"

definition toUpperCase :: "(jsstring \<Rightarrow> jsstring) \<Rightarrow> jsstring \<Rightarrow> jsstring" where
  "toUpperCase unicodeUpper s =
     (if list_all (\<lambda>c. c < 0x0080) s then map ascii_upper s else unicodeUpper s)"

text \<open>
  The constructor \<open>new NodeOperationError(node, message, {itemIndex: i})\<close> belongs to the
  library \<open>n8n-workflow\<close>.  Called with a string, it ends with
  \<open>setDescriptiveErrorMessage\<close> (no message mapping, no error code): the first entry of
  the library's table \<open>COMMON_ERRORS\<close> whose key occurs in the upper-cased message
  replaces the message by its descriptive text; with no such entry the message stays.
  The table is given in the library's order.
\<close>

definition COMMON_ERRORS :: "(jsstring \<times> jsstring) list" where
  "COMMON_ERRORS =
     [(lit ''ECONNREFUSED'', lit ''The service refused the connection - perhaps it is offline''),
      (lit ''ECONNRESET'',
       lit ''The connection to the server was closed unexpectedly, perhaps it is offline. You can retry the request immediately or wait and retry later.''),
      (lit ''ENOTFOUND'',
       lit ''The connection cannot be established, this usually occurs due to an incorrect host (domain) value''),
      (lit ''ETIMEDOUT'',
       lit ''The connection timed out, consider setting the 'Retry on Fail' option in the node settings''),
      (lit ''ERRADDRINUSE'',
       lit ''The port is already occupied by some other application, if possible change the port or kill the application that is using it''),
      (lit ''EADDRNOTAVAIL'',
       lit ''The address is not available, ensure that you have the right IP address''),
      (lit ''ECONNABORTED'', lit ''The connection was aborted, perhaps the server is offline''),
      (lit ''EHOSTUNREACH'', lit ''The host is unreachable, perhaps the server is offline''),
      (lit ''EAI_AGAIN'', lit ''The DNS server returned an error, perhaps the server is offline''),
      (lit ''ENOENT'', lit ''The file or directory does not exist''),
      (lit ''EISDIR'', lit ''Unexpected directory encountered''),
      (lit ''ENOTDIR'', lit ''Expected a directory but got a file''),
      (lit ''EACCES'',
       lit ''Forbidden by access permissions, make sure you have the right permissions''),
      (lit ''EEXIST'', lit ''The file or directory already exists''),
      (lit ''EPERM'', lit ''Operation not permitted, make sure you have the right permissions''),
      (lit ''GETADDRINFO'', lit ''The server closed the connection unexpectedly'')]"

definition setDescriptiveErrorMessage :: "(jsstring \<Rightarrow> jsstring) \<Rightarrow> jsstring \<Rightarrow> jsstring" where
  "setDescriptiveErrorMessage unicodeUpper msg =
     (case find (\<lambda>(errorCode, descriptive).
                   sublist (toUpperCase unicodeUpper errorCode) (toUpperCase unicodeUpper msg))
             COMMON_ERRORS of
        Some (errorCode, descriptive) \<Rightarrow> descriptive
      | None \<Rightarrow> msg)"

definition new_NodeOperationError :: "(jsstring \<Rightarrow> jsstring) \<Rightarrow> jsstring \<Rightarrow> nat \<Rightarrow> js_error" where
  "new_NodeOperationError unicodeUpper msg i =
     NodeOperationError (setDescriptiveErrorMessage unicodeUpper msg) i"

text \<open>The option values of the \<open>detectionMethod\<close> property (lines 47 to 63).\<close>

definition detection_methods :: "jsstring list" where
  "detection_methods =
     [lit ''INJECTION_GUARD'', lit ''INJECTION_GUARD_MULTI'', lit ''SAFETY_GUARD'']"

text \<open>Lines 227 to 231: an absent or empty \<open>blockedKeywords\<close> is falsy.\<close>

definition blockedKeywords_list :: "rule_settings_param \<Rightarrow> jsstring list" where
  "blockedKeywords_list rs =
     (case blockedKeywords rs of
        None \<Rightarrow> []
      | Some s \<Rightarrow>
          if s \<noteq> [] then filter (\<lambda>s. length s > 0) (map trim (split_newline s))
          else [])"

text \<open>Lines 233 to 237.  An array is truthy even when empty.\<close>

definition rule_settings_of :: "rule_settings_param \<Rightarrow> rule_settings_payload" where
  "rule_settings_of rs =
     \<lparr>rs_enabled = (enabled rs \<noteq> Some False),
      disabled_categories = (case disabledCategories rs of Some cs \<Rightarrow> cs | None \<Rightarrow> []),
      blocked_keywords = blockedKeywords_list rs\<rparr>"

text \<open>
  Lines 196 to 238 for item \<open>i\<close>: the two validation checks in the order of the source,
  then the payload.  A throw is \<open>Inl\<close>.
\<close>

definition build_payload :: "nat \<Rightarrow> node_parameters \<Rightarrow> js_error + payload" where
  "build_payload i p =
     (if prompt_param p = [] \<or> length (trim (prompt_param p)) = 0 then
        Inl (NodeOperationError (lit ''Prompt cannot be empty'') i)
      else if length (prompt_param p) > 10000 then
        Inl (NodeOperationError
               (lit ''Prompt is too long ('' @ decimal (length (prompt_param p)) @
                lit '' characters). Maximum allowed is 10,000 characters.'') i)
      else
        Inr \<lparr>prompt = prompt_param p,
             detection_method = detectionMethod p,
             rule_settings = map_option rule_settings_of (ruleSettings p)\<rparr>)"

section \<open>The request (lines 182 and 240 to 251)\<close>

text \<open>
  The resolved credential; its members are written \<open>cred_baseUrl\<close> and
  \<open>cred_apiKey\<close>, and \<open>baseUrl\<close> and \<open>apiKey\<close> are the constants of lines 182
  and 183.
\<close>

record credentials =
  cred_baseUrl :: jsstring
  cred_apiKey :: jsstring

record http_options =
  opt_method :: jsstring
  opt_url :: jsstring
  opt_body :: payload
  opt_json :: bool
  opt_headers :: "(jsstring \<times> jsstring) list"

text \<open>Lines 240 to 249; \<open>baseUrl\<close> is the constant of line 182, already stripped.\<close>

definition request_options :: "jsstring \<Rightarrow> jsstring \<Rightarrow> payload \<Rightarrow> http_options" where
  "request_options baseUrl apiKey payload =
     \<lparr>opt_method = lit ''POST'',
      opt_url = baseUrl @ lit ''/v1/detect'',
      opt_body = payload,
      opt_json = True,
      opt_headers = [(lit ''Authorization'', lit ''Bearer '' @ apiKey),
                     (lit ''Content-Type'', lit ''application/json'')]\<rparr>"

text \<open>
  The host's HTTP client is a parameter: \<open>http i options\<close> is what
  \<open>this.helpers.httpRequest(options)\<close> does when called for item \<open>i\<close>, either the
  decoded response (\<open>Inr\<close>) or the value it throws (\<open>Inl\<close>).  The \<open>try\<close> block of
  lines 186 to 258, up to the response:
\<close>

definition try_item ::
  "(nat \<Rightarrow> http_options \<Rightarrow> js_error + 'r) \<Rightarrow> jsstring \<Rightarrow> jsstring \<Rightarrow> nat \<Rightarrow>
   node_parameters \<Rightarrow> js_error + 'r" where
  "try_item http baseUrl apiKey i p =
     (case build_payload i p of
        Inl e \<Rightarrow> Inl e
      | Inr payload \<Rightarrow> http i (request_options baseUrl apiKey payload))"

section \<open>Error classification (lines 259 to 331)\<close>

text \<open>\<open>a || b\<close> on strings: an absent or empty string is falsy.\<close>

definition str_or :: "jsstring option \<Rightarrow> jsstring \<Rightarrow> jsstring" where
  "str_or a b = (case a of Some s \<Rightarrow> if s \<noteq> [] then s else b | None \<Rightarrow> b)"

text \<open>\<open>a || b\<close> on numbers: an absent number and zero are falsy.\<close>

definition num_or :: "nat option \<Rightarrow> nat option \<Rightarrow> nat option" where
  "num_or a b = (case a of Some n \<Rightarrow> if n \<noteq> 0 then Some n else b | None \<Rightarrow> b)"

text \<open>A number or \<open>undefined\<close> in a template literal.\<close>

definition number_text :: "nat option \<Rightarrow> jsstring" where
  "number_text n = (case n of Some k \<Rightarrow> decimal k | None \<Rightarrow> lit ''undefined'')"

text \<open>
  Lines 276 to 311: the pair \<open>(errorMessage, errorDetails)\<close>.  \<open>responseBody?.detail\<close>
  of an absent body is absent.
\<close>

definition classify :: "js_error \<Rightarrow> jsstring \<times> jsstring" where
  "classify e =
     (case response e of
        None \<Rightarrow> (message e, [])
      | Some r \<Rightarrow>
          let code = num_or (status r) (statusCode e);
              responseBody = (case body r of Some b \<Rightarrow> Some b | None \<Rightarrow> data r);
              body_detail = (case responseBody of Some b \<Rightarrow> detail b | None \<Rightarrow> None);
              body_err = (case responseBody of Some b \<Rightarrow> body_error b | None \<Rightarrow> None)
          in
            if code = Some 401 then
              (lit ''Authentication failed'',
               lit ''Invalid API key. Please check your Antijection API credentials.'')
            else if code = Some 403 then
              (lit ''Access forbidden'',
               lit ''Your API key does not have permission to access this resource.'')
            else if code = Some 429 then
              (lit ''Rate limit exceeded'',
               lit ''You have exceeded your API rate limit or credit quota. Please upgrade your plan or wait before retrying.'')
            else if code = Some 400 then
              (lit ''Invalid request'',
               str_or body_detail (str_or body_err
                 (lit ''The request was malformed. Check your input parameters.'')))
            else if code = Some 500 \<or> code = Some 502 \<or> code = Some 503 then
              (lit ''Antijection API error'',
               lit ''The Antijection service is temporarily unavailable. Please try again later.'')
            else
              (lit ''HTTP '' @ number_text code @ lit '' error'',
               str_or body_detail (str_or body_err (message e))))"

section \<open>Output items and the loop over the items (lines 185 to 334)\<close>

record error_record =
  error :: jsstring
  details :: jsstring
  rec_statusCode :: "nat option"

datatype 'r item_json = Response 'r | ErrorRecord error_record

record paired_item =
  item :: nat

record 'r execution_data =
  json :: "'r item_json"
  pairedItem :: paired_item

text \<open>Lines 253 to 258.\<close>

definition success_item :: "nat \<Rightarrow> 'r \<Rightarrow> 'r execution_data" where
  "success_item i r = \<lparr>json = Response r, pairedItem = \<lparr>item = i\<rparr>\<rparr>"

text \<open>Lines 314 to 323; \<open>e.response?.status\<close> of an absent response is absent.\<close>

definition error_item :: "nat \<Rightarrow> js_error \<Rightarrow> 'r execution_data" where
  "error_item i e =
     \<lparr>json = ErrorRecord
        \<lparr>error = fst (classify e),
         details = snd (classify e),
         rec_statusCode =
           num_or (case response e of Some r \<Rightarrow> status r | None \<Rightarrow> None) (statusCode e)\<rparr>,
      pairedItem = \<lparr>item = i\<rparr>\<rparr>"

text \<open>Lines 327 to 330: the combined message, and the error made from it.\<close>

definition fullError :: "js_error \<Rightarrow> jsstring" where
  "fullError e =
     (if snd (classify e) \<noteq> [] then fst (classify e) @ lit '': '' @ snd (classify e)
      else fst (classify e))"

definition abort_error :: "(jsstring \<Rightarrow> jsstring) \<Rightarrow> nat \<Rightarrow> js_error \<Rightarrow> js_error" where
  "abort_error unicodeUpper i e = new_NodeOperationError unicodeUpper (fullError e) i"

text \<open>
  The \<open>for\<close> loop: \<open>i\<close> is the index of the first remaining item and \<open>returnData\<close> the
  output so far.  \<open>continueOnFail\<close> is the host's flag; \<open>unicodeUpper\<close> is passed on to
  the constructor of line 328.
\<close>

fun run_items ::
  "(jsstring \<Rightarrow> jsstring) \<Rightarrow> bool \<Rightarrow> (nat \<Rightarrow> http_options \<Rightarrow> js_error + 'r) \<Rightarrow> jsstring \<Rightarrow>
   jsstring \<Rightarrow> nat \<Rightarrow> node_parameters list \<Rightarrow> 'r execution_data list \<Rightarrow>
   js_error + 'r execution_data list" where
  "run_items unicodeUpper continueOnFail http baseUrl apiKey i [] returnData = Inr returnData"
| "run_items unicodeUpper continueOnFail http baseUrl apiKey i (p # rest) returnData =
     (case try_item http baseUrl apiKey i p of
        Inr r \<Rightarrow>
          run_items unicodeUpper continueOnFail http baseUrl apiKey (Suc i) rest
            (returnData @ [success_item i r])
      | Inl e \<Rightarrow>
          if continueOnFail then
            run_items unicodeUpper continueOnFail http baseUrl apiKey (Suc i) rest
              (returnData @ [error_item i e])
          else Inl (abort_error unicodeUpper i e))"

text \<open>Lines 177 to 335.\<close>

definition execute ::
  "(jsstring \<Rightarrow> jsstring) \<Rightarrow> bool \<Rightarrow> (nat \<Rightarrow> http_options \<Rightarrow> js_error + 'r) \<Rightarrow> credentials \<Rightarrow>
   node_parameters list \<Rightarrow> js_error + 'r execution_data list list" where
  "execute unicodeUpper continueOnFail http creds items =
     (case run_items unicodeUpper continueOnFail http
             (replace_trailing_slash (cred_baseUrl creds)) (cred_apiKey creds) 0 items [] of
        Inl e \<Rightarrow> Inl e
      | Inr returnData \<Rightarrow> Inr [returnData])"

section \<open>Auxiliary notions\<close>

text \<open>The output item of item \<open>i\<close> in continue-on-failure mode.\<close>

definition item_output ::
  "(nat \<Rightarrow> http_options \<Rightarrow> js_error + 'r) \<Rightarrow> jsstring \<Rightarrow> jsstring \<Rightarrow> nat \<Rightarrow>
   node_parameters \<Rightarrow> 'r execution_data" where
  "item_output http baseUrl apiKey i p =
     (case try_item http baseUrl apiKey i p of
        Inr r \<Rightarrow> success_item i r
      | Inl e \<Rightarrow> error_item i e)"

text \<open>The code units of the decimal digits.\<close>

definition is_digit :: "16 word \<Rightarrow> bool" where
  "is_digit c \<longleftrightarrow> 0x0030 \<le> c \<and> c \<le> 0x0039"

text \<open>
  Following the words of claim C7: \<open>t\<close> is \<open>l\<close> trimmed when \<open>l\<close> is \<open>t\<close> between two
  runs of whitespace and \<open>t\<close> neither starts nor ends with whitespace.
\<close>

definition is_trimmed_of :: "jsstring \<Rightarrow> jsstring \<Rightarrow> bool" where
  "is_trimmed_of l t \<longleftrightarrow>
     (\<exists>a b. l = a @ t @ b \<and> list_all isWhiteSpace a \<and> list_all isWhiteSpace b \<and>
            (t = [] \<or> \<not> isWhiteSpace (hd t) \<and> \<not> isWhiteSpace (last t)))"

text \<open>
  Following the words of claim C10: the base URL with at most one trailing slash removed,
  followed by \<open>/v1/detect\<close>.
\<close>

definition spec_detect_url :: "jsstring \<Rightarrow> jsstring" where
  "spec_detect_url b =
     (if b \<noteq> [] \<and> last b = 0x002F then butlast b else b) @ lit ''/v1/detect''"

text \<open>
  Sample inputs: a credential, three items with valid prompts, three items of which the
  second has a blank prompt, thrown values with status 401, 429 and 400, a client that
  fails with 401 on the item of index 1, and one that always answers; the thrown value of
  a refused connection and a client that throws it; a client that answers like
  \<open>sample_http\<close> at the detection URL of the sample credential and fails elsewhere.
\<close>

definition sample_credentials :: credentials where
  "sample_credentials = \<lparr>cred_baseUrl = lit ''http://h/'', cred_apiKey = lit ''key''\<rparr>"

definition sample_items :: "node_parameters list" where
  "sample_items =
     [\<lparr>prompt_param = lit ''hi'', detectionMethod = lit ''SAFETY_GUARD'', ruleSettings = None\<rparr>,
      \<lparr>prompt_param = lit ''yo'', detectionMethod = lit ''INJECTION_GUARD'', ruleSettings = None\<rparr>,
      \<lparr>prompt_param = lit ''ok'', detectionMethod = lit ''SAFETY_GUARD'', ruleSettings = None\<rparr>]"

definition blank_items :: "node_parameters list" where
  "blank_items =
     [\<lparr>prompt_param = lit ''hi'', detectionMethod = lit ''SAFETY_GUARD'', ruleSettings = None\<rparr>,
      \<lparr>prompt_param = lit '' '', detectionMethod = lit ''SAFETY_GUARD'', ruleSettings = None\<rparr>,
      \<lparr>prompt_param = lit ''ok'', detectionMethod = lit ''SAFETY_GUARD'', ruleSettings = None\<rparr>]"

definition unauthorized :: js_error where
  "unauthorized =
     \<lparr>message = lit ''Request failed with status code 401'',
      response = Some \<lparr>status = Some 401, body = None, data = None\<rparr>,
      statusCode = None, itemIndex = None\<rparr>"

definition sample_http :: "nat \<Rightarrow> http_options \<Rightarrow> js_error + nat" where
  "sample_http i opts = (if i = 1 then Inl unauthorized else Inr (100 + i))"

definition ok_http :: "nat \<Rightarrow> http_options \<Rightarrow> js_error + nat" where
  "ok_http i opts = Inr (100 + i)"

definition rate_limited :: js_error where
  "rate_limited =
     \<lparr>message = lit ''Too Many Requests'',
      response = Some \<lparr>status = None, body = None, data = None\<rparr>,
      statusCode = Some 429, itemIndex = None\<rparr>"

definition bad_request :: js_error where
  "bad_request =
     \<lparr>message = lit ''Bad Request'',
      response = Some \<lparr>status = Some 400, body = None,
                        data = Some \<lparr>detail = Some [], body_error = Some (lit ''prompt missing'')\<rparr>\<rparr>,
      statusCode = None, itemIndex = None\<rparr>"

definition connection_refused :: js_error where
  "connection_refused =
     \<lparr>message = lit ''connect ECONNREFUSED 127.0.0.1:443'',
      response = None, statusCode = None, itemIndex = None\<rparr>"

definition refusing_http :: "nat \<Rightarrow> http_options \<Rightarrow> js_error + nat" where
  "refusing_http i opts = Inl connection_refused"

definition url_bound_http :: "nat \<Rightarrow> http_options \<Rightarrow> js_error + nat" where
  "url_bound_http i opts =
     (if opt_url opts = lit ''http://h/v1/detect'' then sample_http i opts
      else Inl connection_refused)"

section \<open>Facts about the built-ins\<close>

text \<open>A string trims to the empty string exactly when it has only whitespace.\<close>

lemma trim_Nil_iff: "trim s = [] \<longleftrightarrow> list_all isWhiteSpace s"
proof
  assume "trim s = []"
  then have all: "\<forall>x \<in> set (dropWhile isWhiteSpace s). isWhiteSpace x"
    by (simp add: trim_def dropWhile_eq_Nil_conv)
  have "dropWhile isWhiteSpace s = []"
  proof (rule ccontr)
    assume ne: "dropWhile isWhiteSpace s \<noteq> []"
    then have "\<not> isWhiteSpace (hd (dropWhile isWhiteSpace s))"
      by (rule hd_dropWhile)
    moreover have "hd (dropWhile isWhiteSpace s) \<in> set (dropWhile isWhiteSpace s)"
      using ne by simp
    ultimately show False using all by blast
  qed
  then show "list_all isWhiteSpace s"
    by (simp add: dropWhile_eq_Nil_conv list_all_iff)
next
  assume "list_all isWhiteSpace s"
  then have d: "dropWhile isWhiteSpace s = []"
    by (simp add: list_all_iff)
  show "trim s = []"
    unfolding trim_def d by simp
qed

lemma isWhiteSpace_space: "isWhiteSpace 0x0020"
  by (simp add: isWhiteSpace_def)

text \<open>\<open>decimal\<close> prints the number: reading the digits back gives it again.\<close>

lemma unat_digit: "d < 10 \<Longrightarrow> unat (digit d) = 48 + d"
  by (simp add: digit_def unat_of_nat del: of_nat_add)

lemma decimal_value: "foldl (\<lambda>a d. 10 * a + (unat d - 48)) 0 (decimal n) = n"
proof (induction n rule: decimal.induct)
  case (1 n)
  show ?case
  proof (cases "n < 10")
    case True
    then show ?thesis by (subst decimal.simps) (simp add: unat_digit)
  next
    case False
    with 1 show ?thesis by (subst decimal.simps) (simp add: unat_digit)
  qed
qed

lemma decimal_10001: "decimal 10001 = lit ''10001''"
  by (simp add: decimal.simps digit_def lit_def)

lemma is_digit_digit: "d < 10 \<Longrightarrow> is_digit (digit d)"
  by (simp add: is_digit_def word_le_nat_alt unat_digit)

lemma decimal_digits: "list_all is_digit (decimal n) \<and> decimal n \<noteq> []"
proof (induction n rule: decimal.induct)
  case (1 n)
  show ?case
  proof (cases "n < 10")
    case True
    then show ?thesis by (subst (1 2) decimal.simps) (simp add: is_digit_digit)
  next
    case False
    with 1 show ?thesis by (subst (1 2) decimal.simps) (simp add: is_digit_digit)
  qed
qed

lemma is_digit_ascii: "is_digit c \<Longrightarrow> c < 0x0080 \<and> ascii_upper c = c"
  by (auto simp add: is_digit_def ascii_upper_def word_le_nat_alt word_less_nat_alt)

text \<open>
  Splitting at line feeds: joining the pieces with line feeds gives the string back, and
  no piece has a line feed; the two properties determine the list of pieces.
\<close>

lemma split_from_join:
  "concat (map (\<lambda>l. l @ [0x000A]) (split_from cur s)) = cur @ s @ [0x000A]"
  by (induction s arbitrary: cur) simp_all

lemma split_from_no_newline:
  "0x000A \<notin> set cur \<Longrightarrow> \<forall>l \<in> set (split_from cur s). 0x000A \<notin> set l"
proof (induction s arbitrary: cur)
  case Nil
  then show ?case by simp
next
  case (Cons c s)
  show ?case
  proof (cases "c = 0x000A")
    case True
    have "\<forall>l \<in> set (split_from [] s). 0x000A \<notin> set l"
      by (rule Cons.IH) simp
    with True Cons.prems show ?thesis by simp
  next
    case False
    have "\<forall>l \<in> set (split_from (cur @ [c]) s). 0x000A \<notin> set l"
      by (rule Cons.IH) (use False Cons.prems in auto)
    with False show ?thesis by simp
  qed
qed

lemma lines_unique:
  assumes "concat (map (\<lambda>l. l @ [n]) ls) = concat (map (\<lambda>l. l @ [n]) ls')"
    and "\<forall>l \<in> set ls. n \<notin> set l" and "\<forall>l \<in> set ls'. n \<notin> set l"
  shows "ls = ls'"
  using assms
proof (induction ls arbitrary: ls')
  case Nil
  then show ?case by (cases ls') simp_all
next
  case (Cons l ls)
  show ?case
  proof (cases ls')
    case Nil
    with Cons.prems(1) show ?thesis by simp
  next
    case (Cons l' ls'')
    let ?r = "concat (map (\<lambda>l. l @ [n]) ls)" and ?r' = "concat (map (\<lambda>l. l @ [n]) ls'')"
    from Cons.prems(1) Cons have eq: "l @ n # ?r = l' @ n # ?r'" by simp
    have nl: "n \<notin> set l" "n \<notin> set l'" using Cons.prems(2,3) Cons by simp_all
    have "l = l' \<and> ?r = ?r'"
      using eq nl
    proof (induction l arbitrary: l')
      case Nil
      then show ?case by (cases l') auto
    next
      case (Cons x xs)
      then show ?case by (cases l') auto
    qed
    then show ?thesis
      using Cons.IH [of ls''] Cons.prems(2,3) Cons by simp
  qed
qed

text \<open>Trimming: \<open>trim l\<close> is \<open>l\<close> trimmed, and nothing else is.\<close>

lemma trim_is_trimmed: "is_trimmed_of l (trim l)"
proof -
  let ?d = "dropWhile isWhiteSpace l"
  let ?a = "takeWhile isWhiteSpace l"
  let ?b = "rev (takeWhile isWhiteSpace (rev ?d))"
  have t: "trim l = rev (dropWhile isWhiteSpace (rev ?d))" by (simp add: trim_def)
  have "rev (takeWhile isWhiteSpace (rev ?d) @ dropWhile isWhiteSpace (rev ?d)) = ?d"
    by (simp only: takeWhile_dropWhile_id rev_rev_ident)
  then have "rev (dropWhile isWhiteSpace (rev ?d)) @ rev (takeWhile isWhiteSpace (rev ?d)) = ?d"
    by (simp only: rev_append)
  then have d: "?d = trim l @ ?b" by (simp only: t)
  have "l = ?a @ ?d" by simp
  with d have l: "l = ?a @ trim l @ ?b" by simp
  have wa: "list_all isWhiteSpace ?a"
    by (auto simp add: list_all_iff dest: set_takeWhileD)
  have wb: "list_all isWhiteSpace ?b"
    by (auto simp add: list_all_iff dest: set_takeWhileD)
  have ends: "\<not> isWhiteSpace (hd (trim l)) \<and> \<not> isWhiteSpace (last (trim l))" if ne: "trim l \<noteq> []"
  proof
    have dne: "?d \<noteq> []"
    proof
      assume e: "?d = []"
      have "trim l = []" unfolding t e by simp
      with ne show False by simp
    qed
    then have "\<not> isWhiteSpace (hd ?d)" by (rule hd_dropWhile)
    moreover have "hd ?d = hd (trim l)" using d ne by (metis hd_append2)
    ultimately show "\<not> isWhiteSpace (hd (trim l))" by simp
    from ne have "dropWhile isWhiteSpace (rev ?d) \<noteq> []" by (simp add: t)
    then have "\<not> isWhiteSpace (hd (dropWhile isWhiteSpace (rev ?d)))" by (rule hd_dropWhile)
    moreover have "last (trim l) = hd (dropWhile isWhiteSpace (rev ?d))"
      unfolding t by (simp add: last_rev)
    ultimately show "\<not> isWhiteSpace (last (trim l))" by simp
  qed
  show ?thesis
    unfolding is_trimmed_of_def using l wa wb ends by blast
qed

lemma trims_all: "list_all2 is_trimmed_of ls (map trim ls)"
  by (simp add: list_all2_map2 list_all2_same trim_is_trimmed)

lemma is_trimmed_of_trim:
  assumes "is_trimmed_of l t"
  shows "t = trim l"
proof -
  from assms obtain a b where l: "l = a @ t @ b"
    and wa: "list_all isWhiteSpace a" and wb: "list_all isWhiteSpace b"
    and ends: "t = [] \<or> \<not> isWhiteSpace (hd t) \<and> \<not> isWhiteSpace (last t)"
    unfolding is_trimmed_of_def by blast
  show ?thesis
  proof (cases "t = []")
    case True
    with l wa wb have "list_all isWhiteSpace l" by simp
    then have "trim l = []" by (simp only: trim_Nil_iff)
    with True show ?thesis by simp
  next
    case False
    with ends have h: "\<not> isWhiteSpace (hd t)" and e: "\<not> isWhiteSpace (last t)" by simp_all
    have d1: "dropWhile isWhiteSpace l = t @ b"
    proof -
      have "dropWhile isWhiteSpace (a @ t @ b) = dropWhile isWhiteSpace (t @ b)"
        using wa by (simp add: list_all_iff)
      also have "\<dots> = t @ b"
        using False h by (cases t) simp_all
      finally show ?thesis by (simp only: l)
    qed
    have d2: "dropWhile isWhiteSpace (rev b @ rev t) = rev t"
    proof -
      have "dropWhile isWhiteSpace (rev b @ rev t) = dropWhile isWhiteSpace (rev t)"
        by (rule dropWhile_append2) (use wb in \<open>simp add: list_all_iff\<close>)
      also have "\<dots> = rev t"
        using False e by (cases "rev t") (simp_all add: last_rev hd_rev)
      finally show ?thesis .
    qed
    have "trim l = rev (dropWhile isWhiteSpace (rev (t @ b)))"
      unfolding trim_def d1 ..
    also have "\<dots> = rev (rev t)" using d2 by simp
    finally show ?thesis by simp
  qed
qed

lemma is_trimmed_of_unique: "is_trimmed_of l t \<Longrightarrow> is_trimmed_of l t' \<Longrightarrow> t = t'"
  by (auto dest: is_trimmed_of_trim)

text \<open>The replacement removes the last code unit when it is a slash, and nothing else.\<close>

lemma replace_trailing_slash_eq:
  "replace_trailing_slash s = (if s \<noteq> [] \<and> last s = 0x002F then butlast s else s)"
  by (induction s) auto

section \<open>The three outcomes of payload construction\<close>

lemma build_payload_blank:
  "list_all isWhiteSpace (prompt_param p) \<Longrightarrow>
   build_payload i p = Inl (NodeOperationError (lit ''Prompt cannot be empty'') i)"
  by (simp add: build_payload_def trim_Nil_iff)

lemma build_payload_too_long:
  "\<not> list_all isWhiteSpace (prompt_param p) \<Longrightarrow> length (prompt_param p) > 10000 \<Longrightarrow>
   build_payload i p =
     Inl (NodeOperationError
            (lit ''Prompt is too long ('' @ decimal (length (prompt_param p)) @
             lit '' characters). Maximum allowed is 10,000 characters.'') i)"
  by (auto simp add: build_payload_def trim_Nil_iff)

lemma build_payload_valid:
  "\<not> list_all isWhiteSpace (prompt_param p) \<Longrightarrow> length (prompt_param p) \<le> 10000 \<Longrightarrow>
   build_payload i p =
     Inr \<lparr>prompt = prompt_param p,
          detection_method = detectionMethod p,
          rule_settings = map_option rule_settings_of (ruleSettings p)\<rparr>"
  by (auto simp add: build_payload_def trim_Nil_iff)

lemma sublist_middle: "sublist m (a @ m @ b)"
  unfolding sublist_def by blast

section \<open>The constructor of \<open>NodeOperationError\<close>\<close>

text \<open>
  A code of the table has no digit, so an occurrence of it in a text with a block of digits
  lies before or after the block.
\<close>

lemma sublist_skip_unit:
  assumes "x \<notin> set c" and "c \<noteq> []" and "sublist c (a @ x # b)"
  shows "sublist c a \<or> sublist c b"
proof -
  from assms(3) consider "sublist c a" | "sublist c (x # b)"
    | xs1 xs2 where "c = xs1 @ xs2" "suffix xs1 a" "prefix xs2 (x # b)"
    unfolding sublist_append by blast
  then show ?thesis
  proof cases
    case 1
    then show ?thesis by simp
  next
    case 2
    then have "prefix c (x # b) \<or> sublist c b" by (simp add: sublist_Cons_right)
    moreover have "\<not> prefix c (x # b)"
      using assms(1,2) by (cases c) (auto simp: prefix_Cons)
    ultimately show ?thesis by simp
  next
    case 3
    show ?thesis
    proof (cases xs2)
      case Nil
      with 3 have "suffix c a" by simp
      then show ?thesis by (simp add: suffix_imp_sublist)
    next
      case (Cons y ys)
      with 3(3) have "y = x" by (simp add: prefix_Cons)
      with Cons 3(1) assms(1) show ?thesis by simp
    qed
  qed
qed

lemma sublist_skip_block:
  assumes "\<forall>x \<in> set d. x \<notin> set c" and "c \<noteq> []" and "d \<noteq> []" and "sublist c (a @ d @ b)"
  shows "sublist c a \<or> sublist c b"
  using assms
proof (induction d arbitrary: a)
  case Nil
  then show ?case by simp
next
  case (Cons x d)
  from Cons.prems(1) have x: "x \<notin> set c" by simp
  from Cons.prems(4) have "sublist c (a @ x # (d @ b))" by simp
  from sublist_skip_unit [OF x Cons.prems(2) this]
  consider "sublist c a" | "sublist c (d @ b)" by blast
  then show ?case
  proof cases
    case 1
    then show ?thesis by simp
  next
    case 2
    show ?thesis
    proof (cases "d = []")
      case True
      with 2 show ?thesis by simp
    next
      case False
      have "sublist c [] \<or> sublist c b"
        using Cons.IH [of "[]"] Cons.prems(1,2) False 2 by simp
      with Cons.prems(2) show ?thesis by simp
    qed
  qed
qed

lemma setDescriptiveErrorMessage_kept:
  assumes "list_all (\<lambda>(errorCode, descriptive). \<not> sublist (toUpperCase u errorCode) (toUpperCase u m))
             COMMON_ERRORS"
  shows "setDescriptiveErrorMessage u m = m"
proof -
  have "find (\<lambda>(errorCode, descriptive). sublist (toUpperCase u errorCode) (toUpperCase u m))
          COMMON_ERRORS = None"
    using assms by (auto simp add: find_None_iff list_all_iff)
  then show ?thesis by (simp add: setDescriptiveErrorMessage_def)
qed

text \<open>
  Neither validation message has a code of the table, whatever the number printed in the
  second: the constructor keeps both, so \<open>build_payload\<close> throws what lines 197 and 205
  construct.
\<close>

lemma prompt_empty_message_kept:
  "setDescriptiveErrorMessage u (lit ''Prompt cannot be empty'') = lit ''Prompt cannot be empty''"
  by (simp add: setDescriptiveErrorMessage_def COMMON_ERRORS_def toUpperCase_def lit_def
      ascii_upper_def sublist_code)

lemma codes_facts:
  "list_all (\<lambda>(errorCode, descriptive).
       toUpperCase u errorCode \<noteq> [] \<and>
       list_all (\<lambda>x. \<not> is_digit x) (toUpperCase u errorCode) \<and>
       \<not> sublist (toUpperCase u errorCode) (map ascii_upper (lit ''Prompt is too long ('')) \<and>
       \<not> sublist (toUpperCase u errorCode)
           (map ascii_upper (lit '' characters). Maximum allowed is 10,000 characters.'')))
     COMMON_ERRORS"
  by (simp add: COMMON_ERRORS_def toUpperCase_def lit_def ascii_upper_def sublist_code is_digit_def)

lemma prompt_too_long_message_kept:
  "setDescriptiveErrorMessage u
     (lit ''Prompt is too long ('' @ decimal n @
      lit '' characters). Maximum allowed is 10,000 characters.'') =
   lit ''Prompt is too long ('' @ decimal n @
      lit '' characters). Maximum allowed is 10,000 characters.''"
proof (rule setDescriptiveErrorMessage_kept)
  let ?P = "lit ''Prompt is too long (''"
  let ?S = "lit '' characters). Maximum allowed is 10,000 characters.''"
  let ?m = "?P @ decimal n @ ?S"
  have dig: "list_all is_digit (decimal n)" and ne: "decimal n \<noteq> []"
    using decimal_digits by simp_all
  have ascii: "list_all (\<lambda>c. c < 0x0080) ?m"
    using dig by (auto simp add: lit_def list_all_iff dest: is_digit_ascii)
  have "map ascii_upper (decimal n) = decimal n"
    using dig by (simp add: list_all_iff map_idI is_digit_ascii)
  then have up: "toUpperCase u ?m = map ascii_upper ?P @ decimal n @ map ascii_upper ?S"
    using ascii by (simp add: toUpperCase_def)
  show "list_all (\<lambda>(errorCode, descriptive). \<not> sublist (toUpperCase u errorCode) (toUpperCase u ?m))
          COMMON_ERRORS"
    unfolding list_all_iff
  proof (intro ballI, clarify)
    fix errorCode descriptive
    assume mem: "(errorCode, descriptive) \<in> set COMMON_ERRORS"
    assume sub: "sublist (toUpperCase u errorCode) (toUpperCase u ?m)"
    let ?c = "toUpperCase u errorCode"
    from codes_facts [of u] mem
    have c: "?c \<noteq> []" "list_all (\<lambda>x. \<not> is_digit x) ?c"
      "\<not> sublist ?c (map ascii_upper ?P)" "\<not> sublist ?c (map ascii_upper ?S)"
      unfolding list_all_iff by blast+
    have disj: "\<forall>x \<in> set (decimal n). x \<notin> set ?c"
      using dig c(2) by (auto simp add: list_all_iff)
    from sub have "sublist ?c (map ascii_upper ?P @ decimal n @ map ascii_upper ?S)"
      by (simp only: up)
    from sublist_skip_block [OF disj c(1) ne this] c(3,4)
    show False by blast
  qed
qed

lemma new_NodeOperationError_validation:
  "new_NodeOperationError u (lit ''Prompt cannot be empty'') i =
     NodeOperationError (lit ''Prompt cannot be empty'') i"
  "new_NodeOperationError u
     (lit ''Prompt is too long ('' @ decimal n @
      lit '' characters). Maximum allowed is 10,000 characters.'') i =
   NodeOperationError
     (lit ''Prompt is too long ('' @ decimal n @
      lit '' characters). Maximum allowed is 10,000 characters.'') i"
  by (simp_all only: new_NodeOperationError_def prompt_empty_message_kept
      prompt_too_long_message_kept)

lemma connection_refused_replaced:
  "setDescriptiveErrorMessage u (lit ''connect ECONNREFUSED 127.0.0.1:443'') =
     lit ''The service refused the connection - perhaps it is offline''"
  by (simp add: setDescriptiveErrorMessage_def COMMON_ERRORS_def toUpperCase_def lit_def
      ascii_upper_def sublist_code)

section \<open>Prompt validation\<close>

text \<open>
  Claim C1, as amended.  A prompt whose length is between 1 and 10000 and that is not made
  of whitespace only passes validation, for each of the three detection methods; the
  payload carries the method and the prompt unchanged.
\<close>

theorem payload_keeps_prompt_and_method:
  assumes "1 \<le> length (prompt_param p)" and "length (prompt_param p) \<le> 10000"
    and "\<not> list_all isWhiteSpace (prompt_param p)"
    and "detectionMethod p \<in> set detection_methods"
  shows "\<exists>pl. build_payload i p = Inr pl \<and> detection_method pl = detectionMethod p \<and>
              prompt pl = prompt_param p"
  using assms by (simp add: build_payload_valid)

text \<open>The amended C1 at the prompt \<open>hello\<close> with \<open>SAFETY_GUARD\<close>.\<close>

theorem payload_keeps_prompt_and_method_witness:
  "1 \<le> length (lit ''hello'') \<and> length (lit ''hello'') \<le> 10000 \<and>
   \<not> list_all isWhiteSpace (lit ''hello'') \<and>
   lit ''SAFETY_GUARD'' \<in> set detection_methods \<and>
   (\<exists>pl. build_payload 7 \<lparr>prompt_param = lit ''hello'', detectionMethod = lit ''SAFETY_GUARD'',
                           ruleSettings = None\<rparr> = Inr pl \<and>
         detection_method pl = lit ''SAFETY_GUARD'' \<and> prompt pl = lit ''hello'')"
proof -
  let ?p = "\<lparr>prompt_param = lit ''hello'', detectionMethod = lit ''SAFETY_GUARD'',
             ruleSettings = None\<rparr>"
  have h1: "1 \<le> length (prompt_param ?p)" by (simp add: lit_def)
  have h2: "length (prompt_param ?p) \<le> 10000" by (simp add: lit_def)
  have h3: "\<not> list_all isWhiteSpace (prompt_param ?p)"
    by (simp add: lit_def isWhiteSpace_def)
  have h4: "detectionMethod ?p \<in> set detection_methods"
    by (simp add: detection_methods_def)
  show ?thesis using h1 h2 h3 h4 payload_keeps_prompt_and_method [OF h1 h2 h3 h4, of 7] by simp
qed

text \<open>
  Claim C1 as first stated fails: the one-character prompt made of a space has a length in
  the range, and is rejected by the emptiness check of line 196.
\<close>

theorem whitespace_prompt_in_range_rejected:
  "1 \<le> length [0x0020 :: 16 word] \<and> length [0x0020 :: 16 word] \<le> 10000 \<and>
   lit ''INJECTION_GUARD'' \<in> set detection_methods \<and>
   build_payload 0 \<lparr>prompt_param = [0x0020], detectionMethod = lit ''INJECTION_GUARD'',
                     ruleSettings = None\<rparr>
     = Inl (NodeOperationError (lit ''Prompt cannot be empty'') 0)"
  by (simp add: detection_methods_def build_payload_def trim_def isWhiteSpace_def)

text \<open>
  Claim C5, as amended.  A prompt longer than 10000 code units that is not made of
  whitespace only is rejected with the message of line 207, which contains the decimal
  length of the prompt and the text \<open>10,000\<close>; for a length of 10001 it contains
  \<open>10001\<close>.
\<close>

theorem too_long_prompt_message:
  assumes "length (prompt_param p) > 10000" and "\<not> list_all isWhiteSpace (prompt_param p)"
  shows "\<exists>msg. build_payload i p = Inl (NodeOperationError msg i) \<and>
           msg = lit ''Prompt is too long ('' @ decimal (length (prompt_param p)) @
                 lit '' characters). Maximum allowed is 10,000 characters.'' \<and>
           sublist (decimal (length (prompt_param p))) msg \<and>
           sublist (lit ''10,000'') msg \<and>
           (length (prompt_param p) = 10001 \<longrightarrow> sublist (lit ''10001'') msg)"
proof -
  let ?n = "decimal (length (prompt_param p))"
  let ?msg = "lit ''Prompt is too long ('' @ ?n @
                 lit '' characters). Maximum allowed is 10,000 characters.''"
  have b: "build_payload i p = Inl (NodeOperationError ?msg i)"
    using assms by (simp add: build_payload_too_long)
  have s1: "sublist ?n ?msg" by (rule sublist_middle)
  have "lit '' characters). Maximum allowed is 10,000 characters.'' =
        lit '' characters). Maximum allowed is '' @ lit ''10,000'' @ lit '' characters.''"
    by (simp add: lit_def)
  then have "?msg = (lit ''Prompt is too long ('' @ ?n @ lit '' characters). Maximum allowed is '')
                 @ lit ''10,000'' @ lit '' characters.''"
    by simp
  then have s2: "sublist (lit ''10,000'') ?msg"
    using sublist_middle by metis
  have s3: "length (prompt_param p) = 10001 \<longrightarrow> sublist (lit ''10001'') ?msg"
    using s1 by (auto simp: decimal_10001)
  show ?thesis using b s1 s2 s3 by blast
qed

text \<open>The amended C5 at 10000 spaces followed by \<open>x\<close>.\<close>

theorem too_long_prompt_message_witness:
  "length (replicate 10000 (0x0020 :: 16 word) @ lit ''x'') > 10000 \<and>
   \<not> list_all isWhiteSpace (replicate 10000 (0x0020 :: 16 word) @ lit ''x'') \<and>
   (\<exists>msg. build_payload 2 \<lparr>prompt_param = replicate 10000 0x0020 @ lit ''x'',
              detectionMethod = lit ''SAFETY_GUARD'', ruleSettings = None\<rparr>
            = Inl (NodeOperationError msg 2) \<and>
      msg = lit ''Prompt is too long (10001 characters). Maximum allowed is 10,000 characters.'' \<and>
      sublist (lit ''10001'') msg \<and> sublist (lit ''10,000'') msg)"
proof -
  let ?p = "\<lparr>prompt_param = replicate 10000 0x0020 @ lit ''x'',
              detectionMethod = lit ''SAFETY_GUARD'', ruleSettings = None\<rparr>"
  have h1: "length (prompt_param ?p) > 10000" by (simp add: lit_def)
  have h2: "\<not> list_all isWhiteSpace (prompt_param ?p)"
    by (simp add: lit_def isWhiteSpace_def)
  have n: "length (prompt_param ?p) = 10001" by (simp add: lit_def)
  show ?thesis using h1 h2 too_long_prompt_message [OF h1 h2, of 2] unfolding n
    by (auto simp add: decimal_10001 lit_def)
qed

text \<open>
  Claim C5 as first stated fails: a prompt of 10001 spaces is longer than 10000 and gets
  the emptiness message, which contains neither \<open>10001\<close> nor \<open>10,000\<close>.
\<close>

theorem long_whitespace_prompt_not_length_error:
  "length (replicate 10001 (0x0020 :: 16 word)) > 10000 \<and>
   build_payload 0 \<lparr>prompt_param = replicate 10001 0x0020, detectionMethod = lit ''SAFETY_GUARD'',
      ruleSettings = None\<rparr> = Inl (NodeOperationError (lit ''Prompt cannot be empty'') 0) \<and>
   \<not> sublist (lit ''10001'') (lit ''Prompt cannot be empty'') \<and>
   \<not> sublist (lit ''10,000'') (lit ''Prompt cannot be empty'')"
  using build_payload_blank [of "\<lparr>prompt_param = replicate 10001 0x0020,
      detectionMethod = lit ''SAFETY_GUARD'', ruleSettings = None\<rparr>" 0]
  by (simp add: list_all_iff isWhiteSpace_space lit_def sublist_code)

text \<open>
  Claim C6.  An empty or whitespace-only prompt makes payload construction throw, before
  any request is made, an error that carries the index of the item; the error that aborts
  the run and the output item of continue-on-failure mode carry the same index.
\<close>

theorem blank_prompt_error_has_index:
  assumes "prompt_param p = [] \<or> list_all isWhiteSpace (prompt_param p)"
  shows "\<exists>e. build_payload i p = Inl e \<and> itemIndex e = Some i \<and> response e = None \<and>
             try_item http baseUrl apiKey i p = Inl e \<and>
             itemIndex (abort_error u i e) = Some i \<and>
             item (pairedItem (error_item i e :: 'r execution_data)) = i"
proof -
  from assms have "list_all isWhiteSpace (prompt_param p)" by auto
  then have "build_payload i p = Inl (NodeOperationError (lit ''Prompt cannot be empty'') i)"
    by (rule build_payload_blank)
  then show ?thesis
    by (simp add: try_item_def NodeOperationError_def abort_error_def error_item_def
        new_NodeOperationError_def)
qed

text \<open>C6 at item 4 with a prompt of one space.\<close>

theorem blank_prompt_error_has_index_witness:
  "(prompt_param \<lparr>prompt_param = lit '' '', detectionMethod = lit ''SAFETY_GUARD'',
       ruleSettings = None\<rparr> = [] \<or>
    list_all isWhiteSpace (lit '' '')) \<and>
   (\<exists>e. build_payload 4 \<lparr>prompt_param = lit '' '', detectionMethod = lit ''SAFETY_GUARD'',
       ruleSettings = None\<rparr> = Inl e \<and> itemIndex e = Some 4 \<and>
      try_item (\<lambda>i opts. Inr ()) (lit ''http://h'') (lit ''key'') 4
        \<lparr>prompt_param = lit '' '', detectionMethod = lit ''SAFETY_GUARD'',
         ruleSettings = None\<rparr> = Inl e)"
proof -
  let ?p = "\<lparr>prompt_param = lit '' '', detectionMethod = lit ''SAFETY_GUARD'',
       ruleSettings = None\<rparr>"
  have h: "prompt_param ?p = [] \<or> list_all isWhiteSpace (prompt_param ?p)"
    by (simp add: lit_def isWhiteSpace_def)
  show ?thesis
    using h blank_prompt_error_has_index [OF h, where i = 4 and http = "\<lambda>i opts. Inr ()"
                  and baseUrl = "lit ''http://h''" and apiKey = "lit ''key''"]
    by auto
qed

text \<open>
  Claim C9.  A whitespace-only prompt gets the emptiness error whatever its length: the
  check of line 196 comes before the length check of line 204, so the length message is
  not produced.
\<close>

theorem whitespace_prompt_emptiness_first:
  assumes "list_all isWhiteSpace (prompt_param p)"
  shows "build_payload i p = Inl (NodeOperationError (lit ''Prompt cannot be empty'') i) \<and>
         build_payload i p \<noteq>
           Inl (NodeOperationError
                  (lit ''Prompt is too long ('' @ decimal (length (prompt_param p)) @
                   lit '' characters). Maximum allowed is 10,000 characters.'') i)"
  using assms by (simp add: build_payload_blank NodeOperationError_def lit_def)

text \<open>C9 at a prompt of 10001 tabs.\<close>

theorem whitespace_prompt_emptiness_first_witness:
  "list_all isWhiteSpace (replicate 10001 (0x0009 :: 16 word)) \<and>
   length (replicate 10001 (0x0009 :: 16 word)) > 10000 \<and>
   build_payload 0 \<lparr>prompt_param = replicate 10001 0x0009, detectionMethod = lit ''SAFETY_GUARD'',
      ruleSettings = None\<rparr> = Inl (NodeOperationError (lit ''Prompt cannot be empty'') 0)"
proof -
  let ?p = "\<lparr>prompt_param = replicate 10001 0x0009, detectionMethod = lit ''SAFETY_GUARD'',
      ruleSettings = None\<rparr>"
  have h: "list_all isWhiteSpace (prompt_param ?p)"
    by (simp add: list_all_iff isWhiteSpace_def)
  show ?thesis using h whitespace_prompt_emptiness_first [OF h, of 0] by simp
qed

section \<open>Rule settings\<close>

text \<open>
  Claim C7.  For every \<open>blockedKeywords\<close> string \<open>s\<close> the payload's
  \<open>blocked_keywords\<close> is obtained from the lines of \<open>s\<close> (the pieces without line feed
  that, joined by line feeds, give \<open>s\<close>) by trimming each and dropping those that are
  empty after trimming, in order; the string made of \<open>a\<close>, two line feeds, \<open>b\<close>, a
  space and a line feed gives \<open>a\<close> and \<open>b\<close>.  The lines and their trimmed forms are
  stated without the functions of the model, and are the ones the model computes.
\<close>

theorem blocked_keywords_split_trim:
  assumes "\<not> list_all isWhiteSpace (prompt_param p)" and "length (prompt_param p) \<le> 10000"
    and "ruleSettings p = Some rs" and "blockedKeywords rs = Some s"
  shows "\<exists>pl out ls ts. build_payload i p = Inr pl \<and> rule_settings pl = Some out \<and>
           concat (map (\<lambda>l. l @ [0x000A]) ls) = s @ [0x000A] \<and>
           (\<forall>l \<in> set ls. 0x000A \<notin> set l) \<and>
           list_all2 is_trimmed_of ls ts \<and>
           blocked_keywords out = filter (\<lambda>t. t \<noteq> []) ts \<and>
           ls = split_newline s \<and> ts = map trim ls \<and>
           (s = lit ''a\<newline>\<newline>b \<newline>'' \<longrightarrow> blocked_keywords out = [lit ''a'', lit ''b''])"
proof -
  let ?ls = "split_newline s"
  let ?ts = "map trim ?ls"
  have e: "blockedKeywords_list rs = filter (\<lambda>t. t \<noteq> []) ?ts"
    using assms(4) by (simp add: blockedKeywords_list_def split_newline_def trim_def)
  have c: "filter (\<lambda>l. l \<noteq> []) (map trim (split_newline (lit ''a\<newline>\<newline>b \<newline>'')))
           = [lit ''a'', lit ''b'']"
    by (simp add: lit_def split_newline_def trim_def isWhiteSpace_def)
  have j: "concat (map (\<lambda>l. l @ [0x000A]) ?ls) = s @ [0x000A]"
    using split_from_join [of "[]" s] by (simp add: split_newline_def)
  have n: "\<forall>l \<in> set ?ls. 0x000A \<notin> set l"
    using split_from_no_newline [of "[]" s] by (simp add: split_newline_def)
  have t: "list_all2 is_trimmed_of ?ls ?ts" by (rule trims_all)
  have b: "build_payload i p =
             Inr \<lparr>prompt = prompt_param p, detection_method = detectionMethod p,
                  rule_settings = Some (rule_settings_of rs)\<rparr>"
    using assms(1-3) by (simp add: build_payload_valid)
  have k: "blocked_keywords (rule_settings_of rs) = filter (\<lambda>t. t \<noteq> []) ?ts"
    using e by (simp add: rule_settings_of_def)
  have x: "s = lit ''a\<newline>\<newline>b \<newline>'' \<longrightarrow>
             blocked_keywords (rule_settings_of rs) = [lit ''a'', lit ''b'']"
    using k c by simp
  show ?thesis
    by (rule exI [of _ "\<lparr>prompt = prompt_param p, detection_method = detectionMethod p,
                  rule_settings = Some (rule_settings_of rs)\<rparr>"],
        rule exI [of _ "rule_settings_of rs"], rule exI [of _ ?ls], rule exI [of _ ?ts])
      (use b j n t k x in simp)
qed

text \<open>C7 at that string.\<close>

theorem blocked_keywords_split_trim_witness:
  "\<not> list_all isWhiteSpace (lit ''hi'') \<and> length (lit ''hi'') \<le> 10000 \<and>
   (\<exists>pl out. build_payload 0
       \<lparr>prompt_param = lit ''hi'', detectionMethod = lit ''SAFETY_GUARD'',
        ruleSettings = Some \<lparr>enabled = None, disabledCategories = None,
          blockedKeywords = Some (lit ''a\<newline>\<newline>b \<newline>'')\<rparr>\<rparr> = Inr pl \<and>
      rule_settings pl = Some out \<and> blocked_keywords out = [lit ''a'', lit ''b''])"
proof -
  let ?rs = "\<lparr>enabled = None, disabledCategories = None,
          blockedKeywords = Some (lit ''a\<newline>\<newline>b \<newline>'')\<rparr>"
  let ?p = "\<lparr>prompt_param = lit ''hi'', detectionMethod = lit ''SAFETY_GUARD'',
        ruleSettings = Some ?rs\<rparr>"
  have h1: "\<not> list_all isWhiteSpace (prompt_param ?p)" by (simp add: lit_def isWhiteSpace_def)
  have h2: "length (prompt_param ?p) \<le> 10000" by (simp add: lit_def)
  have h3: "ruleSettings ?p = Some ?rs" by simp
  have h4: "blockedKeywords ?rs = Some (lit ''a\<newline>\<newline>b \<newline>'')" by simp
  from blocked_keywords_split_trim [OF h1 h2 h3 h4, of 0]
  obtain pl out where "build_payload 0 ?p = Inr pl" "rule_settings pl = Some out"
    "blocked_keywords out = [lit ''a'', lit ''b'']"
    by blast
  then show ?thesis using h1 h2 by auto
qed

text \<open>
  Claim C8.  When the rule-settings collection is present the payload has
  \<open>rule_settings\<close>; its \<open>enabled\<close> is false exactly when the input's is the explicit
  \<open>false\<close>, and its \<open>disabled_categories\<close> is the input list, or empty when absent.
\<close>

theorem rule_settings_included:
  assumes "\<not> list_all isWhiteSpace (prompt_param p)" and "length (prompt_param p) \<le> 10000"
    and "ruleSettings p = Some rs"
  shows "\<exists>pl out. build_payload i p = Inr pl \<and> rule_settings pl = Some out \<and>
           (enabled rs = Some False \<longrightarrow> \<not> rs_enabled out) \<and>
           (enabled rs \<noteq> Some False \<longrightarrow> rs_enabled out) \<and>
           (disabledCategories rs = None \<longrightarrow> disabled_categories out = []) \<and>
           (\<forall>cs. disabledCategories rs = Some cs \<longrightarrow> disabled_categories out = cs)"
  using assms by (simp add: build_payload_valid rule_settings_of_def)

text \<open>C8 at a collection with every member absent, and at one with \<open>enabled\<close> false.\<close>

theorem rule_settings_included_witness:
  "\<not> list_all isWhiteSpace (lit ''hi'') \<and> length (lit ''hi'') \<le> 10000 \<and>
   (\<exists>pl out. build_payload 0
       \<lparr>prompt_param = lit ''hi'', detectionMethod = lit ''SAFETY_GUARD'',
        ruleSettings = Some \<lparr>enabled = None, disabledCategories = None,
          blockedKeywords = None\<rparr>\<rparr> = Inr pl \<and> rule_settings pl = Some out \<and>
        rs_enabled out \<and> disabled_categories out = []) \<and>
   (\<exists>pl out. build_payload 0
       \<lparr>prompt_param = lit ''hi'', detectionMethod = lit ''SAFETY_GUARD'',
        ruleSettings = Some \<lparr>enabled = Some False, disabledCategories = Some [lit ''emojis''],
          blockedKeywords = None\<rparr>\<rparr> = Inr pl \<and> rule_settings pl = Some out \<and>
        \<not> rs_enabled out \<and> disabled_categories out = [lit ''emojis''])"
proof -
  let ?rs0 = "\<lparr>enabled = None, disabledCategories = None, blockedKeywords = None\<rparr>"
  let ?p0 = "\<lparr>prompt_param = lit ''hi'', detectionMethod = lit ''SAFETY_GUARD'',
        ruleSettings = Some ?rs0\<rparr>"
  let ?rs1 = "\<lparr>enabled = Some False, disabledCategories = Some [lit ''emojis''],
          blockedKeywords = None\<rparr>"
  let ?p1 = "\<lparr>prompt_param = lit ''hi'', detectionMethod = lit ''SAFETY_GUARD'',
        ruleSettings = Some ?rs1\<rparr>"
  have h1: "\<not> list_all isWhiteSpace (prompt_param ?p0)" by (simp add: lit_def isWhiteSpace_def)
  have h2: "length (prompt_param ?p0) \<le> 10000" by (simp add: lit_def)
  have h1': "\<not> list_all isWhiteSpace (prompt_param ?p1)" by (simp add: lit_def isWhiteSpace_def)
  have h2': "length (prompt_param ?p1) \<le> 10000" by (simp add: lit_def)
  show ?thesis
    using h1 h2 rule_settings_included [OF h1 h2, of ?rs0 0] rule_settings_included [OF h1' h2', of ?rs1 0] by auto
qed

section \<open>Error classification\<close>

text \<open>
  Claim C4.  For a thrown value with an HTTP response, where the status is
  \<open>e.response.status || e.statusCode\<close>: status 401 gives \<open>Authentication failed\<close>
  and status 429 gives \<open>Rate limit exceeded\<close>, each with its fixed details; status 400
  gives \<open>Invalid request\<close> with the details taken from the \<open>detail\<close> member of the
  response body (\<open>body\<close>, else \<open>data\<close>), else from its \<open>error\<close> member, else a
  fixed text, a member counting when it is present and not the empty string.
\<close>

theorem classify_known_status:
  assumes "response e = Some r"
  shows "(status r = Some 401 \<longrightarrow> fst (classify e) = lit ''Authentication failed'') \<and>
         (status r = Some 429 \<longrightarrow> fst (classify e) = lit ''Rate limit exceeded'') \<and>
         (status r = Some 400 \<longrightarrow> fst (classify e) = lit ''Invalid request'') \<and>
         (num_or (status r) (statusCode e) = Some 401 \<longrightarrow>
            classify e = (lit ''Authentication failed'',
              lit ''Invalid API key. Please check your Antijection API credentials.'')) \<and>
         (num_or (status r) (statusCode e) = Some 429 \<longrightarrow>
            classify e = (lit ''Rate limit exceeded'',
              lit ''You have exceeded your API rate limit or credit quota. Please upgrade your plan or wait before retrying.'')) \<and>
         (num_or (status r) (statusCode e) = Some 400 \<longrightarrow>
            fst (classify e) = lit ''Invalid request'' \<and>
            snd (classify e) =
              (case (case body r of Some b \<Rightarrow> Some b | None \<Rightarrow> data r) of
                 None \<Rightarrow> lit ''The request was malformed. Check your input parameters.''
               | Some b \<Rightarrow>
                   if detail b \<noteq> None \<and> detail b \<noteq> Some [] then the (detail b)
                   else if body_error b \<noteq> None \<and> body_error b \<noteq> Some [] then the (body_error b)
                   else lit ''The request was malformed. Check your input parameters.''))"
proof -
  have n: "num_or (Some c) x = Some c" if "c \<noteq> 0" for c x
    using that by (simp add: num_or_def)
  have main: "(num_or (status r) (statusCode e) = Some 401 \<longrightarrow>
            classify e = (lit ''Authentication failed'',
              lit ''Invalid API key. Please check your Antijection API credentials.'')) \<and>
         (num_or (status r) (statusCode e) = Some 429 \<longrightarrow>
            classify e = (lit ''Rate limit exceeded'',
              lit ''You have exceeded your API rate limit or credit quota. Please upgrade your plan or wait before retrying.'')) \<and>
         (num_or (status r) (statusCode e) = Some 400 \<longrightarrow>
            fst (classify e) = lit ''Invalid request'' \<and>
            snd (classify e) =
              (case (case body r of Some b \<Rightarrow> Some b | None \<Rightarrow> data r) of
                 None \<Rightarrow> lit ''The request was malformed. Check your input parameters.''
               | Some b \<Rightarrow>
                   if detail b \<noteq> None \<and> detail b \<noteq> Some [] then the (detail b)
                   else if body_error b \<noteq> None \<and> body_error b \<noteq> Some [] then the (body_error b)
                   else lit ''The request was malformed. Check your input parameters.''))"
    using assms
    by (auto simp add: classify_def Let_def str_or_def split: option.splits)
  have s401: "status r = Some 401 \<longrightarrow> fst (classify e) = lit ''Authentication failed''"
    using main n [of 401 "statusCode e"] by auto
  have s429: "status r = Some 429 \<longrightarrow> fst (classify e) = lit ''Rate limit exceeded''"
    using main n [of 429 "statusCode e"] by auto
  have s400: "status r = Some 400 \<longrightarrow> fst (classify e) = lit ''Invalid request''"
    using main n [of 400 "statusCode e"] by auto
  show ?thesis
    using main s401 s429 s400 by blast
qed

text \<open>C4 at the three sample thrown values.\<close>

theorem classify_known_status_witness:
  "response unauthorized = Some \<lparr>status = Some 401, body = None, data = None\<rparr> \<and>
   fst (classify unauthorized) = lit ''Authentication failed'' \<and>
   response rate_limited = Some \<lparr>status = None, body = None, data = None\<rparr> \<and>
   statusCode rate_limited = Some 429 \<and>
   fst (classify rate_limited) = lit ''Rate limit exceeded'' \<and>
   response bad_request =
     Some \<lparr>status = Some 400, body = None,
           data = Some \<lparr>detail = Some [], body_error = Some (lit ''prompt missing'')\<rparr>\<rparr> \<and>
   classify bad_request = (lit ''Invalid request'', lit ''prompt missing'')"
proof -
  have r1: "response unauthorized = Some \<lparr>status = Some 401, body = None, data = None\<rparr>"
    by (simp add: unauthorized_def)
  have r2: "response rate_limited = Some \<lparr>status = None, body = None, data = None\<rparr>"
    by (simp add: rate_limited_def)
  have r3: "response bad_request =
     Some \<lparr>status = Some 400, body = None,
           data = Some \<lparr>detail = Some [], body_error = Some (lit ''prompt missing'')\<rparr>\<rparr>"
    by (simp add: bad_request_def)
  have a: "fst (classify unauthorized) = lit ''Authentication failed''"
    using classify_known_status [OF r1] by (simp add: num_or_def unauthorized_def)
  have b: "fst (classify rate_limited) = lit ''Rate limit exceeded''"
    using classify_known_status [OF r2] by (simp add: num_or_def rate_limited_def)
  have c: "classify bad_request = (lit ''Invalid request'', lit ''prompt missing'')"
    using classify_known_status [OF r3] by (simp add: num_or_def bad_request_def prod_eq_iff lit_def)
  show ?thesis using r1 r2 r3 a b c by (simp add: rate_limited_def)
qed

section \<open>The run over the items\<close>

text \<open>
  In continue-on-failure mode every item gives one output item, in order; without it the
  run stops at the first item that fails.
\<close>

lemma run_items_continue:
  "run_items u True http b k i ps acc =
     Inr (acc @ map (\<lambda>j. item_output http b k (i + j) (ps ! j)) [0..<length ps])"
proof (induction ps arbitrary: i acc)
  case Nil
  show ?case by simp
next
  case (Cons p ps)
  have m: "map (\<lambda>j. item_output http b k (i + j) ((p # ps) ! j)) [0..<length (p # ps)] =
           item_output http b k i p #
           map (\<lambda>j. item_output http b k (Suc i + j) (ps ! j)) [0..<length ps]"
    by (simp add: map_upt_Suc del: upt_Suc)
  show ?case
    unfolding m
    by (cases "try_item http b k i p") (simp_all add: Cons.IH item_output_def)
qed

lemma run_items_abort:
  assumes "n < length ps"
    and "\<forall>j<n. \<exists>r. try_item http b k (i + j) (ps ! j) = Inr r"
    and "try_item http b k (i + n) (ps ! n) = Inl e"
  shows "run_items u False http b k i ps acc = Inl (abort_error u (i + n) e)"
  using assms
proof (induction ps arbitrary: i n acc)
  case Nil
  then show ?case by simp
next
  case (Cons p ps)
  show ?case
  proof (cases n)
    case 0
    with Cons.prems show ?thesis by simp
  next
    case (Suc m)
    from Cons.prems(2) Suc obtain r where r: "try_item http b k i p = Inr r"
      by force
    have a: "m < length ps" using Cons.prems(1) Suc by simp
    have b: "\<forall>j<m. \<exists>r. try_item http b k (Suc i + j) (ps ! j) = Inr r"
    proof (intro allI impI)
      fix j assume "j < m"
      then have "Suc j < n" using Suc by simp
      with Cons.prems(2) have "\<exists>r. try_item http b k (i + Suc j) ((p # ps) ! Suc j) = Inr r"
        by blast
      then show "\<exists>r. try_item http b k (Suc i + j) (ps ! j) = Inr r" by simp
    qed
    have c: "try_item http b k (Suc i + m) (ps ! m) = Inl e"
      using Cons.prems(3) Suc by simp
    show ?thesis
      using Cons.IH [OF a b c] r Suc by simp
  qed
qed

lemma sample_try_0:
  "try_item sample_http (replace_trailing_slash (cred_baseUrl sample_credentials))
     (cred_apiKey sample_credentials) 0 (sample_items ! 0) = Inr 100"
  by (simp add: sample_items_def sample_http_def try_item_def build_payload_def trim_def
      isWhiteSpace_def lit_def)

lemma sample_try_1:
  "try_item sample_http (replace_trailing_slash (cred_baseUrl sample_credentials))
     (cred_apiKey sample_credentials) 1 (sample_items ! 1) = Inl unauthorized"
  by (simp add: sample_items_def sample_http_def try_item_def build_payload_def trim_def
      isWhiteSpace_def lit_def)

lemma sample_try_2:
  "try_item sample_http (replace_trailing_slash (cred_baseUrl sample_credentials))
     (cred_apiKey sample_credentials) 2 (sample_items ! 2) = Inr 102"
  by (simp add: sample_items_def sample_http_def try_item_def build_payload_def trim_def
      isWhiteSpace_def lit_def)

lemma blank_try_0:
  "try_item ok_http (replace_trailing_slash (cred_baseUrl sample_credentials))
     (cred_apiKey sample_credentials) 0 (blank_items ! 0) = Inr 100"
  by (simp add: blank_items_def ok_http_def try_item_def build_payload_def trim_def
      isWhiteSpace_def lit_def)

lemma blank_try_1:
  "try_item ok_http (replace_trailing_slash (cred_baseUrl sample_credentials))
     (cred_apiKey sample_credentials) 1 (blank_items ! 1) =
   Inl (NodeOperationError (lit ''Prompt cannot be empty'') 1)"
  by (simp add: blank_items_def ok_http_def try_item_def build_payload_def trim_def
      isWhiteSpace_def lit_def)

lemma classify_unauthorized:
  "classify unauthorized = (lit ''Authentication failed'',
      lit ''Invalid API key. Please check your Antijection API credentials.'')"
  by (simp add: unauthorized_def classify_def num_or_def)

lemma classify_NodeOperationError: "classify (NodeOperationError msg i) = (msg, [])"
  by (simp add: classify_def NodeOperationError_def)

text \<open>
  Claim C2.  In continue-on-failure mode, when the item of index \<open>k\<close> fails (in
  validation or in the request) and every other item succeeds, the output has as many
  items as the input; the item at \<open>k\<close> is the error record of the failure, every other
  one is the decoded response of its item, and each is paired with its own index.
\<close>

theorem continue_on_fail_keeps_every_item:
  assumes "k < length items"
    and "try_item http (replace_trailing_slash (cred_baseUrl creds)) (cred_apiKey creds) k
           (items ! k) = Inl e"
    and "\<forall>j<length items. j \<noteq> k \<longrightarrow>
           try_item http (replace_trailing_slash (cred_baseUrl creds)) (cred_apiKey creds) j
             (items ! j) = Inr (rs j)"
  shows "\<exists>out. execute u True http creds items = Inr [out] \<and>
           length out = length items \<and>
           out ! k =
             \<lparr>json = ErrorRecord
                \<lparr>error = fst (classify e), details = snd (classify e),
                 rec_statusCode =
                   num_or (case response e of Some r \<Rightarrow> status r | None \<Rightarrow> None)
                     (statusCode e)\<rparr>,
              pairedItem = \<lparr>item = k\<rparr>\<rparr> \<and>
           (\<forall>j<length items. j \<noteq> k \<longrightarrow>
              out ! j = \<lparr>json = Response (rs j), pairedItem = \<lparr>item = j\<rparr>\<rparr>) \<and>
           (\<forall>j<length items. item (pairedItem (out ! j)) = j)"
proof -
  let ?b = "replace_trailing_slash (cred_baseUrl creds)"
  let ?a = "cred_apiKey creds"
  let ?out = "map (\<lambda>j. item_output http ?b ?a j (items ! j)) [0..<length items]"
  have ex: "execute u True http creds items = Inr [?out]"
    by (simp add: execute_def run_items_continue)
  have len: "length ?out = length items" by simp
  have nth: "?out ! j = item_output http ?b ?a j (items ! j)" if "j < length items" for j
    using that by simp
  have atk: "?out ! k = error_item k e"
    using assms(1,2) by (simp add: item_output_def)
  have other: "?out ! j = success_item j (rs j)" if "j < length items" "j \<noteq> k" for j
    using that assms(3) by (simp add: item_output_def)
  have paired: "item (pairedItem (?out ! j)) = j" if "j < length items" for j
  proof (cases "j = k")
    case True
    then show ?thesis using atk by (simp add: error_item_def)
  next
    case False
    then show ?thesis using other [OF that] by (simp add: success_item_def)
  qed
  show ?thesis
    using ex len atk other paired
    by (intro exI [of _ ?out]) (simp add: error_item_def success_item_def)
qed

text \<open>C2 at the three valid sample items, the request of the second failing with 401.\<close>

theorem continue_on_fail_keeps_every_item_witness:
  "(1::nat) < length sample_items \<and>
   try_item sample_http (replace_trailing_slash (cred_baseUrl sample_credentials))
     (cred_apiKey sample_credentials) 1 (sample_items ! 1) = Inl unauthorized \<and>
   (\<exists>out. execute id True sample_http sample_credentials sample_items = Inr [out] \<and>
      length out = 3 \<and>
      out ! 0 = \<lparr>json = Response 100, pairedItem = \<lparr>item = 0\<rparr>\<rparr> \<and>
      out ! 1 = \<lparr>json = ErrorRecord
                  \<lparr>error = lit ''Authentication failed'',
                   details = lit ''Invalid API key. Please check your Antijection API credentials.'',
                   rec_statusCode = Some 401\<rparr>,
                pairedItem = \<lparr>item = 1\<rparr>\<rparr> \<and>
      out ! 2 = \<lparr>json = Response 102, pairedItem = \<lparr>item = 2\<rparr>\<rparr>)"
proof -
  let ?attempt = "try_item sample_http (replace_trailing_slash (cred_baseUrl sample_credentials))
     (cred_apiKey sample_credentials)"
  have len: "length sample_items = 3" by (simp add: sample_items_def)
  have h1: "(1::nat) < length sample_items" by (simp add: len)
  have h3: "\<forall>j<length sample_items. j \<noteq> 1 \<longrightarrow> ?attempt j (sample_items ! j) = Inr (100 + j)"
  proof (intro allI impI)
    fix j assume "j < length sample_items" "j \<noteq> 1"
    then have "j = 0 \<or> j = 2" unfolding len by arith
    then show "?attempt j (sample_items ! j) = Inr (100 + j)"
      using sample_try_0 sample_try_2 by auto
  qed
  from continue_on_fail_keeps_every_item [OF h1 sample_try_1 h3, of id]
  obtain out where o: "execute id True sample_http sample_credentials sample_items = Inr [out]"
      "length out = length sample_items"
      "out ! 1 = \<lparr>json = ErrorRecord
                \<lparr>error = fst (classify unauthorized), details = snd (classify unauthorized),
                 rec_statusCode =
                   num_or (case response unauthorized of Some r \<Rightarrow> status r | None \<Rightarrow> None)
                     (statusCode unauthorized)\<rparr>,
              pairedItem = \<lparr>item = 1\<rparr>\<rparr>"
      "\<forall>j<length sample_items. j \<noteq> 1 \<longrightarrow>
              out ! j = \<lparr>json = Response (100 + j), pairedItem = \<lparr>item = j\<rparr>\<rparr>"
    by blast
  have s: "num_or (case response unauthorized of Some r \<Rightarrow> status r | None \<Rightarrow> None)
                     (statusCode unauthorized) = Some 401"
    by (simp add: unauthorized_def num_or_def)
  have o0: "out ! 0 = \<lparr>json = Response 100, pairedItem = \<lparr>item = 0\<rparr>\<rparr>"
    using o(4) len by simp
  have o2: "out ! 2 = \<lparr>json = Response 102, pairedItem = \<lparr>item = 2\<rparr>\<rparr>"
    using o(4) len by simp
  show ?thesis
    using h1 sample_try_1 o(1,2,3) o0 o2 len s by (simp add: classify_unauthorized)
qed

text \<open>
  Claim C3, as amended.  Without continue-on-failure, when the item of index \<open>k\<close> is
  the first that fails, the run throws one operation error, constructed from the combined
  message (message, colon, details; the message alone when there are no details) and
  carrying the index \<open>k\<close>, and returns no output.  The message of the error is the
  combined message when no code of \<open>COMMON_ERRORS\<close> occurs in it, compared in upper
  case; otherwise it is the descriptive text of the first such code.
\<close>

theorem abort_on_first_failure:
  assumes "k < length items"
    and "\<forall>j<k. \<exists>r. try_item http (replace_trailing_slash (cred_baseUrl creds))
                       (cred_apiKey creds) j (items ! j) = Inr r"
    and "try_item http (replace_trailing_slash (cred_baseUrl creds)) (cred_apiKey creds) k
           (items ! k) = Inl e"
  shows "\<exists>combined err.
           combined =
             (if snd (classify e) \<noteq> [] then fst (classify e) @ lit '': '' @ snd (classify e)
              else fst (classify e)) \<and>
           execute u False http creds items = Inl err \<and>
           err = new_NodeOperationError u combined k \<and>
           itemIndex err = Some k \<and> response err = None \<and> statusCode err = None \<and>
           (list_all (\<lambda>(errorCode, descriptive).
                        \<not> sublist (toUpperCase u errorCode) (toUpperCase u combined))
              COMMON_ERRORS \<longrightarrow> message err = combined) \<and>
           (\<forall>errorCode descriptive.
              find (\<lambda>(errorCode, descriptive).
                      sublist (toUpperCase u errorCode) (toUpperCase u combined))
                COMMON_ERRORS = Some (errorCode, descriptive) \<longrightarrow> message err = descriptive) \<and>
           (\<forall>out. execute u False http creds items \<noteq> Inr out)"
proof -
  let ?err = "new_NodeOperationError u (fullError e) k"
  have "run_items u False http (replace_trailing_slash (cred_baseUrl creds)) (cred_apiKey creds)
          0 items [] = Inl (abort_error u (0 + k) e)"
    using assms by (intro run_items_abort) simp_all
  then have ex: "execute u False http creds items = Inl ?err"
    by (simp add: execute_def abort_error_def)
  have f: "fullError e =
             (if snd (classify e) \<noteq> [] then fst (classify e) @ lit '': '' @ snd (classify e)
              else fst (classify e))"
    by (simp add: fullError_def)
  have fields: "itemIndex ?err = Some k" "response ?err = None" "statusCode ?err = None"
    by (simp_all add: new_NodeOperationError_def NodeOperationError_def)
  have kept: "list_all (\<lambda>(errorCode, descriptive).
                        \<not> sublist (toUpperCase u errorCode) (toUpperCase u (fullError e)))
              COMMON_ERRORS \<longrightarrow> message ?err = fullError e"
    by (simp add: new_NodeOperationError_def NodeOperationError_def
        setDescriptiveErrorMessage_kept)
  have repl: "\<forall>errorCode descriptive.
              find (\<lambda>(errorCode, descriptive).
                      sublist (toUpperCase u errorCode) (toUpperCase u (fullError e)))
                COMMON_ERRORS = Some (errorCode, descriptive) \<longrightarrow> message ?err = descriptive"
    by (simp add: new_NodeOperationError_def NodeOperationError_def
        setDescriptiveErrorMessage_def)
  show ?thesis
    using ex fields kept repl unfolding f
    by (intro exI [of _ ?err] exI) simp
qed

text \<open>
  The amended C3 at a request failing with 401 on the second item, and at a blank second
  prompt: neither combined message has a code of the table.
\<close>

theorem abort_on_first_failure_witness:
  "(1::nat) < length sample_items \<and>
   execute id False sample_http sample_credentials sample_items =
     Inl \<lparr>message = lit ''Authentication failed: Invalid API key. Please check your Antijection API credentials.'',
          response = None, statusCode = None, itemIndex = Some 1\<rparr> \<and>
   execute id False ok_http sample_credentials blank_items =
     Inl \<lparr>message = lit ''Prompt cannot be empty'',
          response = None, statusCode = None, itemIndex = Some 1\<rparr>"
proof -
  have h1: "(1::nat) < length sample_items" by (simp add: sample_items_def)
  have h2: "\<forall>j<1. \<exists>r. try_item sample_http (replace_trailing_slash (cred_baseUrl sample_credentials))
                       (cred_apiKey sample_credentials) j (sample_items ! j) = Inr r"
    using sample_try_0 by simp
  have m: "setDescriptiveErrorMessage id
             (lit ''Authentication failed: Invalid API key. Please check your Antijection API credentials.'') =
           lit ''Authentication failed: Invalid API key. Please check your Antijection API credentials.''"
    by (simp add: setDescriptiveErrorMessage_def COMMON_ERRORS_def toUpperCase_def lit_def
        ascii_upper_def sublist_code)
  have c: "(if snd (classify unauthorized) \<noteq> []
            then fst (classify unauthorized) @ lit '': '' @ snd (classify unauthorized)
            else fst (classify unauthorized)) =
           lit ''Authentication failed: Invalid API key. Please check your Antijection API credentials.''"
    by (simp add: classify_unauthorized) (simp add: lit_def)
  have a: "execute id False sample_http sample_credentials sample_items =
     Inl \<lparr>message = lit ''Authentication failed: Invalid API key. Please check your Antijection API credentials.'',
          response = None, statusCode = None, itemIndex = Some 1\<rparr>"
    using abort_on_first_failure [OF h1 h2 sample_try_1, of id] unfolding c
    by (auto simp add: new_NodeOperationError_def NodeOperationError_def m)
  have g1: "(1::nat) < length blank_items" by (simp add: blank_items_def)
  have g2: "\<forall>j<1. \<exists>r. try_item ok_http (replace_trailing_slash (cred_baseUrl sample_credentials))
                       (cred_apiKey sample_credentials) j (blank_items ! j) = Inr r"
    using blank_try_0 by simp
  have c': "(if snd (classify (NodeOperationError (lit ''Prompt cannot be empty'') 1)) \<noteq> []
            then fst (classify (NodeOperationError (lit ''Prompt cannot be empty'') 1)) @ lit '': '' @
                 snd (classify (NodeOperationError (lit ''Prompt cannot be empty'') 1))
            else fst (classify (NodeOperationError (lit ''Prompt cannot be empty'') 1))) =
           lit ''Prompt cannot be empty''"
    by (simp add: classify_NodeOperationError)
  have b: "execute id False ok_http sample_credentials blank_items =
     Inl \<lparr>message = lit ''Prompt cannot be empty'',
          response = None, statusCode = None, itemIndex = Some 1\<rparr>"
    using abort_on_first_failure [OF g1 g2 blank_try_1, of id] unfolding c'
    by (auto simp add: new_NodeOperationError_def NodeOperationError_def
        prompt_empty_message_kept)
  show ?thesis using h1 a b by simp
qed

text \<open>
  Claim C3 as first stated fails: when the request of the first item is refused, the
  combined message is \<open>connect ECONNREFUSED 127.0.0.1:443\<close>, and the message of the
  error that the run throws is the descriptive text of the library instead.
\<close>

lemma refusing_try_0:
  "try_item refusing_http (replace_trailing_slash (cred_baseUrl sample_credentials))
     (cred_apiKey sample_credentials) 0 (sample_items ! 0) = Inl connection_refused"
  by (simp add: sample_items_def refusing_http_def try_item_def build_payload_def trim_def
      isWhiteSpace_def lit_def)

lemma fullError_connection_refused:
  "fullError connection_refused = lit ''connect ECONNREFUSED 127.0.0.1:443''"
  by (simp add: fullError_def classify_def connection_refused_def)

theorem refused_connection_message_replaced:
  "try_item refusing_http (replace_trailing_slash (cred_baseUrl sample_credentials))
     (cred_apiKey sample_credentials) 0 (sample_items ! 0) = Inl connection_refused \<and>
   fullError connection_refused = lit ''connect ECONNREFUSED 127.0.0.1:443'' \<and>
   execute id False refusing_http sample_credentials sample_items =
     Inl \<lparr>message = lit ''The service refused the connection - perhaps it is offline'',
          response = None, statusCode = None, itemIndex = Some 0\<rparr> \<and>
   lit ''The service refused the connection - perhaps it is offline'' \<noteq>
     lit ''connect ECONNREFUSED 127.0.0.1:443''"
proof -
  have len: "0 < length sample_items" by (simp add: sample_items_def)
  have "run_items id False refusing_http (replace_trailing_slash (cred_baseUrl sample_credentials))
          (cred_apiKey sample_credentials) 0 sample_items [] =
        Inl (abort_error id (0 + 0) connection_refused)"
    using len refusing_try_0 by (intro run_items_abort) simp_all
  then have "execute id False refusing_http sample_credentials sample_items =
     Inl \<lparr>message = lit ''The service refused the connection - perhaps it is offline'',
          response = None, statusCode = None, itemIndex = Some 0\<rparr>"
    by (simp add: execute_def abort_error_def new_NodeOperationError_def NodeOperationError_def
        fullError_connection_refused connection_refused_replaced)
  moreover have "lit ''The service refused the connection - perhaps it is offline'' \<noteq>
     lit ''connect ECONNREFUSED 127.0.0.1:443''"
    by (simp add: lit_def)
  ultimately show ?thesis
    using refusing_try_0 fullError_connection_refused by simp
qed

section \<open>The request URL\<close>

text \<open>
  The client is called only with the options of line 240, whose URL is the stripped base
  URL followed by \<open>/v1/detect\<close>: two clients that agree on such options give the same run.
\<close>

lemma try_item_cong:
  assumes "\<forall>i opts. opt_url opts = b @ lit ''/v1/detect'' \<longrightarrow> http' i opts = http i opts"
  shows "try_item http' b k i p = try_item http b k i p"
  using assms by (simp add: try_item_def request_options_def split: sum.splits)

lemma run_items_cong:
  assumes "\<forall>i opts. opt_url opts = b @ lit ''/v1/detect'' \<longrightarrow> http' i opts = http i opts"
  shows "run_items u c http' b k i ps acc = run_items u c http b k i ps acc"
proof (induction ps arbitrary: i acc)
  case Nil
  show ?case by simp
next
  case (Cons p ps)
  show ?case
    using Cons.IH by (cases c) (simp_all add: try_item_cong [OF assms] split: sum.splits)
qed

lemma spec_detect_url_eq:
  "spec_detect_url b = replace_trailing_slash b @ lit ''/v1/detect''"
  by (simp add: spec_detect_url_def replace_trailing_slash_eq)

text \<open>
  Claim C10.  The URL of every request of a run is the credential's \<open>baseUrl\<close> with at
  most one trailing slash removed, followed by \<open>/v1/detect\<close>: the run asks the client
  for nothing else, and in continue-on-failure mode the output item of each valid item is
  what the client gives for the options with that URL and the payload of the item.  So a
  base URL with one trailing slash gives the URL of the base URL without it, and of two
  trailing slashes one stays.
\<close>

theorem detect_url_strips_one_slash:
  "(\<forall>j<length items.
      \<not> list_all isWhiteSpace (prompt_param (items ! j)) \<and>
      length (prompt_param (items ! j)) \<le> 10000 \<longrightarrow>
      (\<exists>opts pl out.
         build_payload j (items ! j) = Inr pl \<and> opt_body opts = pl \<and>
         opt_url opts = spec_detect_url (cred_baseUrl creds) \<and>
         execute u True http creds items = Inr [out] \<and>
         out ! j = (case http j opts of Inr r \<Rightarrow> success_item j r | Inl e \<Rightarrow> error_item j e))) \<and>
   ((\<forall>i opts. opt_url opts = spec_detect_url (cred_baseUrl creds) \<longrightarrow>
               http' i opts = http i opts) \<longrightarrow>
    execute u c http' creds items = execute u c http creds items) \<and>
   spec_detect_url (b @ lit ''/'') = b @ lit ''/v1/detect'' \<and>
   ((b = [] \<or> last b \<noteq> 0x002F) \<longrightarrow> spec_detect_url (b @ lit ''/'') = spec_detect_url b) \<and>
   spec_detect_url (b @ lit ''//'') = b @ lit ''/'' @ lit ''/v1/detect''"
proof -
  let ?b = "replace_trailing_slash (cred_baseUrl creds)"
  let ?k = "cred_apiKey creds"
  let ?out = "map (\<lambda>j. item_output http ?b ?k j (items ! j)) [0..<length items]"
  have ex: "execute u True http creds items = Inr [?out]"
    by (simp add: execute_def run_items_continue)
  have A: "\<exists>opts pl out.
         build_payload j (items ! j) = Inr pl \<and> opt_body opts = pl \<and>
         opt_url opts = spec_detect_url (cred_baseUrl creds) \<and>
         execute u True http creds items = Inr [out] \<and>
         out ! j = (case http j opts of Inr r \<Rightarrow> success_item j r | Inl e \<Rightarrow> error_item j e)"
    if j: "j < length items" and v: "\<not> list_all isWhiteSpace (prompt_param (items ! j))"
      "length (prompt_param (items ! j)) \<le> 10000" for j
  proof -
    let ?pl = "\<lparr>prompt = prompt_param (items ! j),
          detection_method = detectionMethod (items ! j),
          rule_settings = map_option rule_settings_of (ruleSettings (items ! j))\<rparr>"
    let ?opts = "request_options ?b ?k ?pl"
    have bp: "build_payload j (items ! j) = Inr ?pl"
      using v by (rule build_payload_valid)
    have "?out ! j = item_output http ?b ?k j (items ! j)" using j by simp
    also have "\<dots> = (case http j ?opts of Inr r \<Rightarrow> success_item j r | Inl e \<Rightarrow> error_item j e)"
      by (simp add: item_output_def try_item_def bp)
    finally have o: "?out ! j =
        (case http j ?opts of Inr r \<Rightarrow> success_item j r | Inl e \<Rightarrow> error_item j e)" .
    have url: "opt_url ?opts = spec_detect_url (cred_baseUrl creds)"
      by (simp add: request_options_def spec_detect_url_eq)
    have body: "opt_body ?opts = ?pl" by (simp add: request_options_def)
    show ?thesis using bp body url ex o by blast
  qed
  have B: "execute u c http' creds items = execute u c http creds items"
    if "\<forall>i opts. opt_url opts = spec_detect_url (cred_baseUrl creds) \<longrightarrow>
               http' i opts = http i opts"
  proof -
    from that have "\<forall>i opts. opt_url opts = ?b @ lit ''/v1/detect'' \<longrightarrow> http' i opts = http i opts"
      by (simp add: spec_detect_url_eq)
    then have "run_items u c http' ?b ?k 0 items [] = run_items u c http ?b ?k 0 items []"
      by (rule run_items_cong)
    then show ?thesis by (simp add: execute_def)
  qed
  have C: "spec_detect_url (b @ lit ''/'') = b @ lit ''/v1/detect''"
    "(b = [] \<or> last b \<noteq> 0x002F) \<longrightarrow> spec_detect_url (b @ lit ''/'') = spec_detect_url b"
    "spec_detect_url (b @ lit ''//'') = b @ lit ''/'' @ lit ''/v1/detect''"
    by (auto simp add: spec_detect_url_def lit_def butlast_append)
  show ?thesis using A B C by blast
qed

text \<open>
  C10 at the sample credential, whose base URL \<open>http://h/\<close> ends with one slash: the
  requests go to \<open>http://h/v1/detect\<close>, and a client that answers only there gives the
  same run as \<open>sample_http\<close>.
\<close>

theorem detect_url_strips_one_slash_witness:
  "(lit ''http://h'' = [] \<or> last (lit ''http://h'') \<noteq> 0x002F) \<and>
   spec_detect_url (cred_baseUrl sample_credentials) = lit ''http://h/v1/detect'' \<and>
   spec_detect_url (lit ''http://h'') = lit ''http://h/v1/detect'' \<and>
   spec_detect_url (lit ''http://h//'') = lit ''http://h//v1/detect'' \<and>
   execute id True url_bound_http sample_credentials sample_items =
     execute id True sample_http sample_credentials sample_items \<and>
   (\<exists>opts out. opt_url opts = lit ''http://h/v1/detect'' \<and>
      execute id True sample_http sample_credentials sample_items = Inr [out] \<and>
      out ! 0 = (case sample_http 0 opts of Inr r \<Rightarrow> success_item 0 r
                 | Inl e \<Rightarrow> error_item 0 e))"
proof -
  note inst = detect_url_strips_one_slash [of sample_items sample_credentials id sample_http
      url_bound_http True "lit ''http://h''"]
  have h: "lit ''http://h'' = [] \<or> last (lit ''http://h'') \<noteq> 0x002F"
    by (simp add: lit_def)
  have c1: "spec_detect_url (lit ''http://h'' @ lit ''/'') = lit ''http://h'' @ lit ''/v1/detect''"
    using inst by blast
  have c2: "spec_detect_url (lit ''http://h'' @ lit ''/'') = spec_detect_url (lit ''http://h'')"
    using inst h by blast
  have c3: "spec_detect_url (lit ''http://h'' @ lit ''//'') =
              lit ''http://h'' @ lit ''/'' @ lit ''/v1/detect''"
    using inst by blast
  have e1: "lit ''http://h'' @ lit ''/'' = cred_baseUrl sample_credentials"
    by (simp add: sample_credentials_def lit_def)
  have e2: "lit ''http://h'' @ lit ''/v1/detect'' = lit ''http://h/v1/detect''"
    by (simp add: lit_def)
  have e3: "lit ''http://h'' @ lit ''//'' = lit ''http://h//''"
    by (simp add: lit_def)
  have e4: "lit ''http://h'' @ lit ''/'' @ lit ''/v1/detect'' = lit ''http://h//v1/detect''"
    by (simp add: lit_def)
  have u1: "spec_detect_url (cred_baseUrl sample_credentials) = lit ''http://h/v1/detect''"
    using c1 unfolding e1 e2 .
  have u2: "spec_detect_url (lit ''http://h'') = lit ''http://h/v1/detect''"
    using c2 u1 unfolding e1 by simp
  have u3: "spec_detect_url (lit ''http://h//'') = lit ''http://h//v1/detect''"
    using c3 unfolding e3 e4 .
  have agree: "\<forall>i opts. opt_url opts = spec_detect_url (cred_baseUrl sample_credentials) \<longrightarrow>
                 url_bound_http i opts = sample_http i opts"
    by (simp add: u1 url_bound_http_def)
  have same: "execute id True url_bound_http sample_credentials sample_items =
     execute id True sample_http sample_credentials sample_items"
    using inst agree by blast
  have v: "0 < length sample_items \<and> \<not> list_all isWhiteSpace (prompt_param (sample_items ! 0)) \<and>
      length (prompt_param (sample_items ! 0)) \<le> 10000"
    by (simp add: sample_items_def lit_def isWhiteSpace_def)
  have "\<exists>opts out. opt_url opts = lit ''http://h/v1/detect'' \<and>
      execute id True sample_http sample_credentials sample_items = Inr [out] \<and>
      out ! 0 = (case sample_http 0 opts of Inr r \<Rightarrow> success_item 0 r
                 | Inl e \<Rightarrow> error_item 0 e)"
    using inst v unfolding u1 by blast
  then show ?thesis using h u1 u2 u3 same by blast
qed

end
